theory Spec2Isabelle
  imports Complex_Main "HOL-Library.AList"
begin

section \<open>The spreadsheet service: upload, normalise, serialise, plot, download\<close>

text \<open>
  The program is one Python module, \<^verbatim>\<open>main.py\<close>, with four request handlers:
  \<^verbatim>\<open>upload_file\<close>, \<^verbatim>\<open>generate_all_plots\<close>, \<^verbatim>\<open>download_plot\<close> and
  \<^verbatim>\<open>download_all_plots\<close>. The handlers are embedded below as HOL functions with
  the source's names. What the handlers call in pandas, matplotlib, \<^verbatim>\<open>os\<close>,
  \<^verbatim>\<open>zipfile\<close> and the web framework is not part of the module; the spreadsheet
  parser, the plotting backend and what the table library stores in a column that is not
  numeric are parameters (record \<open>env\<close>), the table operations, the file system and the
  delivery of a response are small explicit models, each named after the library
  function it stands for.
\<close>

subsection \<open>Tables\<close>

text \<open>
  A cell of a data frame. \<open>NaN\<close> and \<open>NaT\<close> are the missing markers (what
  \<^verbatim>\<open>isna\<close> recognises), \<open>PosInf\<close> and \<open>NegInf\<close> the two infinite floats.
\<close>

datatype cell =
    NaN
  | NaT
  | PosInf
  | NegInf
  | FloatV real
  | IntV int
  | StrV string
  | BoolV bool
  | Timestamp string

record column =
  name :: string
  numeric :: bool
  cells :: "cell list"

record table =
  columns :: "column list"
  nrows :: nat

definition wf_table :: "table \<Rightarrow> bool" where
  "wf_table df \<longleftrightarrow>
     distinct (map name (columns df)) \<and>
     list_all (\<lambda>c. length (cells c) = nrows df) (columns df)"

definition isna :: "cell \<Rightarrow> bool" where
  "isna c \<longleftrightarrow> c = NaN \<or> c = NaT"

text \<open>
  A value written into a column by \<^verbatim>\<open>fillna\<close> or \<^verbatim>\<open>replace\<close> takes the
  column's kind: the integer \<open>0\<close> stored in a numeric (float) column is \<open>0.0\<close>.
\<close>

fun store_as :: "column \<Rightarrow> cell \<Rightarrow> cell" where
  "store_as col (IntV i) = (if numeric col then FloatV (real_of_int i) else IntV i)"
| "store_as col v = v"

text \<open>
  \<^verbatim>\<open>df.replace(olds, v, inplace=True)\<close>: every cell equal to one of \<open>olds\<close> becomes
  \<open>v\<close>. A column holding an infinite float is a float or a mixed column, which holds
  the number \<open>0\<close>.
\<close>

definition replace_values :: "cell list \<Rightarrow> cell \<Rightarrow> table \<Rightarrow> table" where
  "replace_values olds v df =
     df\<lparr>columns :=
          map (\<lambda>col. col\<lparr>cells := map (\<lambda>c. if c \<in> set olds then store_as col v else c) (cells col)\<rparr>)
              (columns df)\<rparr>"

text \<open>\<^verbatim>\<open>df.to_dict(orient='records')\<close>: one dictionary per row, keys in column order.\<close>

definition to_dict_records :: "table \<Rightarrow> (string \<times> cell) list list" where
  "to_dict_records df =
     map (\<lambda>i. map (\<lambda>col. (name col, cells col ! i)) (columns df)) [0..<nrows df]"

text \<open>\<^verbatim>\<open>df.select_dtypes(include=['number']).columns\<close>.\<close>

definition select_numeric :: "table \<Rightarrow> string list" where
  "select_numeric df = map name (filter numeric (columns df))"

subsection \<open>Exceptions, JSON and responses\<close>

datatype exception =
    HTTPException nat string
  | FileNotFoundError
  | NotADirectoryError
  | IsADirectoryError
  | TypeError
  | ValueError
  | LibraryError string

datatype json =
    JInt int
  | JFloat real
  | JStr string
  | JBool bool
  | JArr "json list"
  | JObj "(string \<times> json) list"

type_synonym bytes = "nat list"

text \<open>
  The first argument of \<^verbatim>\<open>FileResponse\<close> is a path; Python lets the caller pass any
  object, and \<^verbatim>\<open>download_all_plots\<close> passes a \<^verbatim>\<open>BytesIO\<close> buffer holding a zip
  archive (a list of named members).
\<close>

type_synonym zip_archive = "(string \<times> bytes) list"

datatype file_arg = PathArg string | BytesIOArg zip_archive

datatype response =
    JSONResponse json
  | FileResponse file_arg string string

text \<open>
  \<^verbatim>\<open>json.dumps(..., allow_nan=False)\<close> on a cell, as \<^verbatim>\<open>JSONResponse\<close> renders its
  content when it is constructed.
\<close>

fun json_cell :: "cell \<Rightarrow> exception + json" where
  "json_cell (IntV i) = Inr (JInt i)"
| "json_cell (FloatV r) = Inr (JFloat r)"
| "json_cell (StrV s) = Inr (JStr s)"
| "json_cell (BoolV b) = Inr (JBool b)"
| "json_cell NaN = Inl ValueError"
| "json_cell PosInf = Inl ValueError"
| "json_cell NegInf = Inl ValueError"
| "json_cell NaT = Inl TypeError"
| "json_cell (Timestamp s) = Inl TypeError"

fun json_record :: "(string \<times> cell) list \<Rightarrow> exception + (string \<times> json) list" where
  "json_record [] = Inr []"
| "json_record ((k, c) # kcs) =
     (case json_cell c of
        Inl e \<Rightarrow> Inl e
      | Inr j \<Rightarrow> (case json_record kcs of Inl e \<Rightarrow> Inl e | Inr js \<Rightarrow> Inr ((k, j) # js)))"

fun json_records :: "(string \<times> cell) list list \<Rightarrow> exception + json list" where
  "json_records [] = Inr []"
| "json_records (r # rs) =
     (case json_record r of
        Inl e \<Rightarrow> Inl e
      | Inr j \<Rightarrow> (case json_records rs of Inl e \<Rightarrow> Inl e | Inr js \<Rightarrow> Inr (JObj j # js)))"

subsection \<open>Strings and paths\<close>

text \<open>\<^verbatim>\<open>s.endswith((suf1, suf2, ...))\<close>.\<close>

definition endswith :: "string \<Rightarrow> string list \<Rightarrow> bool" where
  "endswith s sufs =
     list_ex (\<lambda>suf. length suf \<le> length s \<and> drop (length s - length suf) s = suf) sufs"

text \<open>\<^verbatim>\<open>s.split(c)\<close>.\<close>

fun split_on :: "char \<Rightarrow> string \<Rightarrow> string list" where
  "split_on c [] = [[]]"
| "split_on c (x # xs) =
     (if x = c then [] # split_on c xs
      else (case split_on c xs of [] \<Rightarrow> [[x]] | w # ws \<Rightarrow> (x # w) # ws))"

text \<open>\<^verbatim>\<open>os.path.join(a, b)\<close> and \<^verbatim>\<open>os.path.basename(p)\<close> on POSIX.\<close>

definition os_path_join :: "string \<Rightarrow> string \<Rightarrow> string" where
  "os_path_join a b =
     (if b \<noteq> [] \<and> hd b = CHR ''/'' then b
      else if a = [] \<or> last a = CHR ''/'' then a @ b
      else a @ ''/'' @ b)"

definition os_path_basename :: "string \<Rightarrow> string" where
  "os_path_basename p = last (split_on CHR ''/'' p)"

subsection \<open>The file system\<close>

text \<open>
  Directories and regular files, keyed by their absolute path given as the list of
  its components; the root is the empty list. \<open>cwd\<close> is the working directory of the
  process. Symbolic links, permissions and name-length limits are left out.
\<close>

datatype node = File bytes | Dir

record filesystem =
  cwd :: "string list"
  nodes :: "(string list \<times> node) list"

definition lookup :: "filesystem \<Rightarrow> string list \<Rightarrow> node option" where
  "lookup fs p = (if p = [] then Some Dir else map_of (nodes fs) p)"

text \<open>
  Path resolution, one component at a time: every component is looked up in a
  directory, \<open>.\<close> and the empty component stay, \<open>..\<close> goes to the parent.
\<close>

fun walk :: "filesystem \<Rightarrow> string list \<Rightarrow> string list \<Rightarrow> string list option" where
  "walk fs cur [] = Some cur"
| "walk fs cur (c # cs) =
     (case lookup fs cur of
        Some Dir \<Rightarrow>
          (if c = [] \<or> c = ''.'' then walk fs cur cs
           else if c = ''..'' then walk fs (butlast cur) cs
           else walk fs (cur @ [c]) cs)
      | _ \<Rightarrow> None)"

definition start_dir :: "filesystem \<Rightarrow> string \<Rightarrow> string list" where
  "start_dir fs p = (if p \<noteq> [] \<and> hd p = CHR ''/'' then [] else cwd fs)"

definition resolve :: "filesystem \<Rightarrow> string \<Rightarrow> string list option" where
  "resolve fs p =
     (if p = [] then None else walk fs (start_dir fs p) (split_on CHR ''/'' p))"

text \<open>What is at a path: \<^verbatim>\<open>os.stat\<close>, with \<open>None\<close> for its failure.\<close>

definition os_stat :: "filesystem \<Rightarrow> string \<Rightarrow> node option" where
  "os_stat fs p = (case resolve fs p of None \<Rightarrow> None | Some q \<Rightarrow> lookup fs q)"

definition os_path_exists :: "filesystem \<Rightarrow> string \<Rightarrow> bool" where
  "os_path_exists fs p \<longleftrightarrow> os_stat fs p \<noteq> None"

text \<open>
  \<^verbatim>\<open>os.listdir\<close>: the names of the entries of a directory, each once. The order is
  the one of the model's node list; the operating system promises none.
\<close>

definition children :: "filesystem \<Rightarrow> string list \<Rightarrow> string list" where
  "children fs d =
     remdups (map (\<lambda>(p, n). last p) (filter (\<lambda>(p, n). p \<noteq> [] \<and> butlast p = d) (nodes fs)))"

definition os_listdir :: "filesystem \<Rightarrow> string \<Rightarrow> exception + string list" where
  "os_listdir fs p =
     (case resolve fs p of
        None \<Rightarrow> Inl FileNotFoundError
      | Some q \<Rightarrow>
          (case lookup fs q of
             None \<Rightarrow> Inl FileNotFoundError
           | Some (File b) \<Rightarrow> Inl NotADirectoryError
           | Some Dir \<Rightarrow> Inr (children fs q)))"

text \<open>
  Opening a path for writing and writing the whole content (\<^verbatim>\<open>plt.savefig\<close>):
  the directory part must resolve to a directory, the last component must name a new
  entry or a regular file, which the write creates or replaces.
\<close>

definition store_file :: "filesystem \<Rightarrow> string list \<Rightarrow> bytes \<Rightarrow> filesystem" where
  "store_file fs q b = fs\<lparr>nodes := AList.update q (File b) (nodes fs)\<rparr>"

definition write_file :: "filesystem \<Rightarrow> string \<Rightarrow> bytes \<Rightarrow> exception + filesystem" where
  "write_file fs p b =
     (if p = [] then Inl FileNotFoundError
      else
        (case walk fs (start_dir fs p) (butlast (split_on CHR ''/'' p)) of
           None \<Rightarrow> Inl FileNotFoundError
         | Some d \<Rightarrow>
             (case lookup fs d of
                None \<Rightarrow> Inl FileNotFoundError
              | Some (File x) \<Rightarrow> Inl NotADirectoryError
              | Some Dir \<Rightarrow>
                  (let c = last (split_on CHR ''/'' p) in
                   if c = [] \<or> c = ''.'' \<or> c = ''..'' then Inl IsADirectoryError
                   else
                     (case lookup fs (d @ [c]) of
                        Some Dir \<Rightarrow> Inl IsADirectoryError
                      | _ \<Rightarrow> Inr (store_file fs (d @ [c]) b))))))"

text \<open>
  \<^verbatim>\<open>ZipFile.write(path, arcname=name)\<close> for a name that a directory listing gives:
  a regular file becomes a member of that name with its content, a directory becomes an
  empty member whose name ends in a slash.
\<close>

definition zf_write :: "filesystem \<Rightarrow> string \<Rightarrow> string \<Rightarrow> exception + (string \<times> bytes)" where
  "zf_write fs p arcname =
     (case os_stat fs p of
        None \<Rightarrow> Inl FileNotFoundError
      | Some (File b) \<Rightarrow> Inr (arcname, b)
      | Some Dir \<Rightarrow> Inr (arcname @ ''/'', []))"

subsection \<open>The collaborators\<close>

datatype plot_type = Line | Bar | Scatter | Hist

fun plot_type_str :: "plot_type \<Rightarrow> string" where
  "plot_type_str Line = ''line''"
| "plot_type_str Bar = ''bar''"
| "plot_type_str Scatter = ''scatter''"
| "plot_type_str Hist = ''hist''"

text \<open>
  A call into the plotting library: \<^verbatim>\<open>df[column].plot(kind=..., title=..., bins=...)\<close>
  or \<^verbatim>\<open>df.plot.scatter(x=..., y=..., title=...)\<close>.
\<close>

datatype plot_call =
    SeriesPlot string string string "nat option"
  | ScatterPlot string string string

text \<open>
  \<open>read_excel\<close> is the spreadsheet parser; \<open>plot\<close> draws on the current figure and
  gives the PNG bytes that \<^verbatim>\<open>plt.savefig\<close> writes for it; \<open>str_exc\<close> is Python's
  \<^verbatim>\<open>str(e)\<close> on an exception. \<open>can_hold_element\<close> says whether the table library
  stores a value in a column of a kind that is not numeric, or raises: the module pins
  no version of the library, and its versions differ (a text or a date column takes the
  number \<open>0\<close> in some and raises \<^verbatim>\<open>TypeError\<close> in others).
\<close>

record env =
  read_excel :: "bytes \<Rightarrow> exception + table"
  plot :: "table \<Rightarrow> plot_call \<Rightarrow> exception + bytes"
  str_exc :: "exception \<Rightarrow> string"
  can_hold_element :: "column \<Rightarrow> cell \<Rightarrow> bool"

record upload =
  filename :: string
  content :: bytes

subsection \<open>The normalizer\<close>

text \<open>
  \<^verbatim>\<open>df.fillna(v, inplace=True)\<close>, column by column. A column without a missing cell is
  left as it is. A column with a missing cell is filled when it is numeric or when the
  library stores \<open>v\<close> in a column of its kind; otherwise the library raises
  \<^verbatim>\<open>TypeError\<close>.
\<close>

definition fillna_column :: "env \<Rightarrow> cell \<Rightarrow> column \<Rightarrow> exception + column" where
  "fillna_column env v col =
     (if list_ex isna (cells col)
      then (if numeric col \<or> can_hold_element env col v
            then Inr (col\<lparr>cells := map (\<lambda>c. if isna c then store_as col v else c) (cells col)\<rparr>)
            else Inl TypeError)
      else Inr col)"

fun fillna_columns :: "env \<Rightarrow> cell \<Rightarrow> column list \<Rightarrow> exception + column list" where
  "fillna_columns env v [] = Inr []"
| "fillna_columns env v (col # cols) =
     (case fillna_column env v col of
        Inl e \<Rightarrow> Inl e
      | Inr col' \<Rightarrow>
          (case fillna_columns env v cols of
             Inl e \<Rightarrow> Inl e
           | Inr cols' \<Rightarrow> Inr (col' # cols')))"

definition fillna :: "env \<Rightarrow> cell \<Rightarrow> table \<Rightarrow> exception + table" where
  "fillna env v df =
     (case fillna_columns env v (columns df) of
        Inl e \<Rightarrow> Inl e
      | Inr cols \<Rightarrow> Inr (df\<lparr>columns := cols\<rparr>))"

text \<open>
  Lines 31-32 and 61-62 of the module:
  \<^verbatim>\<open>df.fillna(0, inplace=True); df.replace([float('inf'), float('-inf')], 0, inplace=True)\<close>.
\<close>

definition normalizer :: "env \<Rightarrow> table \<Rightarrow> exception + table" where
  "normalizer env df =
     (case fillna env (IntV 0) df of
        Inl e \<Rightarrow> Inl e
      | Inr df1 \<Rightarrow> Inr (replace_values [PosInf, NegInf] (IntV 0) df1))"

subsection \<open>The handlers\<close>

definition PLOT_DIR :: string where
  "PLOT_DIR = ''plots''"

text \<open>\<^verbatim>\<open>POST /upload/\<close>: the body of the \<^verbatim>\<open>try\<close> block, then the handler.\<close>

definition upload_file_try :: "env \<Rightarrow> upload \<Rightarrow> exception + response" where
  "upload_file_try env file =
     (if \<not> endswith (filename file) [''.xls'', ''.xlsx'']
      then Inl (HTTPException 400 ''Invalid file format. Only Excel files are allowed.'')
      else
        (case read_excel env (content file) of
           Inl e \<Rightarrow> Inl e
         | Inr df0 \<Rightarrow>
             (case normalizer env df0 of
                Inl e \<Rightarrow> Inl e
              | Inr df \<Rightarrow>
                  (let data = to_dict_records df
                   in (case json_records data of
                         Inl e \<Rightarrow> Inl e
                       | Inr js \<Rightarrow>
                           Inr (JSONResponse (JObj
                             [(''message'', JStr ''File processed successfully''),
                              (''num_rows'', JInt (int (nrows df))),
                              (''data'', JArr js)])))))))"

definition upload_file :: "env \<Rightarrow> upload \<Rightarrow> exception + response" where
  "upload_file env file =
     (case upload_file_try env file of
        Inl e \<Rightarrow>
          Inl (HTTPException 400
                 (''An error occurred while processing the file: '' @ str_exc env e))
      | Inr r \<Rightarrow> Inr r)"

text \<open>
  One pass of the inner loop body of \<^verbatim>\<open>generate_all_plots\<close> (lines 75-93). \<open>render\<close>
  is the \<^verbatim>\<open>if/elif\<close> chain: \<open>None\<close> is the \<^verbatim>\<open>continue\<close> of the scatter branch.
\<close>

definition render ::
  "env \<Rightarrow> table \<Rightarrow> string list \<Rightarrow> string \<Rightarrow> plot_type \<Rightarrow> (exception + bytes) option" where
  "render env df numeric_columns column plot_type =
     (case plot_type of
        Line \<Rightarrow> Some (plot env df (SeriesPlot column ''line'' (''Line Plot for '' @ column) None))
      | Bar \<Rightarrow> Some (plot env df (SeriesPlot column ''bar'' (''Bar Plot for '' @ column) None))
      | Scatter \<Rightarrow>
          (if length numeric_columns < 2 then None
           else Some (plot env df
                        (ScatterPlot (numeric_columns ! 0) column (''Scatter Plot for '' @ column))))
      | Hist \<Rightarrow>
          Some (plot env df (SeriesPlot column ''hist'' (''Histogram for '' @ column) (Some 10))))"

text \<open>The file name of line 90: \<^verbatim>\<open>f"{column}_{plot_type}.png"\<close>.\<close>

definition plot_file_name :: "string \<Rightarrow> plot_type \<Rightarrow> string" where
  "plot_file_name column plot_type = column @ ''_'' @ plot_type_str plot_type @ ''.png''"

definition plot_step ::
  "env \<Rightarrow> table \<Rightarrow> string list \<Rightarrow> string \<Rightarrow> plot_type \<Rightarrow> string list \<Rightarrow> filesystem
     \<Rightarrow> (exception + string list) \<times> filesystem" where
  "plot_step env df numeric_columns column plot_type plot_paths fs =
     (case render env df numeric_columns column plot_type of
        None \<Rightarrow> (Inr plot_paths, fs)
      | Some (Inl e) \<Rightarrow> (Inl e, fs)
      | Some (Inr png) \<Rightarrow>
          (let plot_path = os_path_join PLOT_DIR (plot_file_name column plot_type)
           in (case write_file fs plot_path png of
                 Inl e \<Rightarrow> (Inl e, fs)
               | Inr fs' \<Rightarrow> (Inr (plot_paths @ [plot_path]), fs'))))"

fun plot_types_loop ::
  "env \<Rightarrow> table \<Rightarrow> string list \<Rightarrow> string \<Rightarrow> plot_type list \<Rightarrow> string list \<Rightarrow> filesystem
     \<Rightarrow> (exception + string list) \<times> filesystem" where
  "plot_types_loop env df numeric_columns column [] plot_paths fs = (Inr plot_paths, fs)"
| "plot_types_loop env df numeric_columns column (plot_type # rest) plot_paths fs =
     (case plot_step env df numeric_columns column plot_type plot_paths fs of
        (Inl e, fs') \<Rightarrow> (Inl e, fs')
      | (Inr plot_paths', fs') \<Rightarrow>
          plot_types_loop env df numeric_columns column rest plot_paths' fs')"

fun columns_loop ::
  "env \<Rightarrow> table \<Rightarrow> string list \<Rightarrow> plot_type list \<Rightarrow> string list \<Rightarrow> string list \<Rightarrow> filesystem
     \<Rightarrow> (exception + string list) \<times> filesystem" where
  "columns_loop env df numeric_columns plot_types [] plot_paths fs = (Inr plot_paths, fs)"
| "columns_loop env df numeric_columns plot_types (column # rest) plot_paths fs =
     (case plot_types_loop env df numeric_columns column plot_types plot_paths fs of
        (Inl e, fs') \<Rightarrow> (Inl e, fs')
      | (Inr plot_paths', fs') \<Rightarrow>
          columns_loop env df numeric_columns plot_types rest plot_paths' fs')"

text \<open>Lines 64-93: the numeric columns, the guard and the two loops.\<close>

definition plot_sweep ::
  "env \<Rightarrow> table \<Rightarrow> filesystem \<Rightarrow> (exception + string list) \<times> filesystem" where
  "plot_sweep env df fs =
     (let numeric_columns = select_numeric df in
      if numeric_columns = []
      then (Inl (HTTPException 400 ''No numeric columns found to plot.''), fs)
      else
        (let plot_types = [Line, Bar, Scatter, Hist]
         in columns_loop env df numeric_columns plot_types numeric_columns [] fs))"

definition plot_url :: "string \<Rightarrow> string" where
  "plot_url path =
     ''http://127.0.0.1:8000/download-plot/?plot_name='' @ os_path_basename path"

definition generate_all_plots_try ::
  "env \<Rightarrow> upload \<Rightarrow> filesystem \<Rightarrow> (exception + response) \<times> filesystem" where
  "generate_all_plots_try env file fs =
     (if \<not> endswith (filename file) [''.xls'', ''.xlsx'']
      then (Inl (HTTPException 400 ''Invalid file format. Only Excel files are allowed.''), fs)
      else
        (case read_excel env (content file) of
           Inl e \<Rightarrow> (Inl e, fs)
         | Inr df0 \<Rightarrow>
             (case normalizer env df0 of
                Inl e \<Rightarrow> (Inl e, fs)
              | Inr df \<Rightarrow>
                  (case plot_sweep env df fs of
                     (Inl e, fs') \<Rightarrow> (Inl e, fs')
                   | (Inr plot_paths, fs') \<Rightarrow>
                       (Inr (JSONResponse (JObj
                          [(''message'', JStr ''Plots generated successfully''),
                           (''plots'', JArr (map (\<lambda>path. JStr (plot_url path)) plot_paths)),
                           (''download_all'', JStr ''http://127.0.0.1:8000/download-all-plots/'')])),
                        fs')))))"

definition generate_all_plots ::
  "env \<Rightarrow> upload \<Rightarrow> filesystem \<Rightarrow> (exception + response) \<times> filesystem" where
  "generate_all_plots env file fs =
     (case generate_all_plots_try env file fs of
        (Inl e, fs') \<Rightarrow>
          (Inl (HTTPException 400
                  (''An error occurred while creating plots: '' @ str_exc env e)), fs')
      | (Inr r, fs') \<Rightarrow> (Inr r, fs'))"

text \<open>\<^verbatim>\<open>GET /download-plot/\<close>.\<close>

definition download_plot :: "filesystem \<Rightarrow> string \<Rightarrow> exception + response" where
  "download_plot fs plot_name =
     (let plot_path = os_path_join PLOT_DIR plot_name in
      if os_path_exists fs plot_path
      then Inr (FileResponse (PathArg plot_path) ''image/png'' plot_name)
      else Inl (HTTPException 404 ''Plot not found''))"

text \<open>\<^verbatim>\<open>GET /download-all-plots/\<close>: the loop over the directory listing, the archive, the handler.\<close>

fun zip_loop :: "filesystem \<Rightarrow> string list \<Rightarrow> zip_archive \<Rightarrow> exception + zip_archive" where
  "zip_loop fs [] zf = Inr zf"
| "zip_loop fs (fname # rest) zf =
     (let file_path = os_path_join PLOT_DIR fname in
      case zf_write fs file_path fname of
        Inl e \<Rightarrow> Inl e
      | Inr member \<Rightarrow> zip_loop fs rest (zf @ [member]))"

definition archive_all :: "filesystem \<Rightarrow> exception + zip_archive" where
  "archive_all fs =
     (case os_listdir fs PLOT_DIR of
        Inl e \<Rightarrow> Inl e
      | Inr names \<Rightarrow> zip_loop fs names [])"

definition download_all_plots :: "env \<Rightarrow> filesystem \<Rightarrow> exception + response" where
  "download_all_plots env fs =
     (case archive_all fs of
        Inl e \<Rightarrow>
          Inl (HTTPException 500
                 (''An error occurred while creating the zip file: '' @ str_exc env e))
      | Inr buffer \<Rightarrow>
          Inr (FileResponse (BytesIOArg buffer) ''application/zip'' ''all_plots.zip''))"

subsection \<open>What the client receives\<close>

text \<open>
  The framework turns what a handler returns or raises into the reply. An
  \<^verbatim>\<open>HTTPException\<close> becomes its status with the body \<^verbatim>\<open>{"detail": ...}\<close>. A
  \<^verbatim>\<open>FileResponse\<close> is sent by calling \<^verbatim>\<open>os.stat\<close> on its path and streaming the
  regular file found there; when \<^verbatim>\<open>os.stat\<close> fails, when the path is not a regular
  file, or when the path argument is not a path at all, the error is raised outside the
  handler and the client receives the server's \<open>500\<close>.
\<close>

datatype body =
    JSONBody json
  | FileBody string string bytes
  | TextBody string

record reply =
  status :: nat
  payload :: body

definition server_error :: reply where
  "server_error = \<lparr>status = 500, payload = TextBody ''Internal Server Error''\<rparr>"

fun deliver :: "filesystem \<Rightarrow> exception + response \<Rightarrow> reply" where
  "deliver fs (Inl (HTTPException code detail)) =
     \<lparr>status = code, payload = JSONBody (JObj [(''detail'', JStr detail)])\<rparr>"
| "deliver fs (Inl e) = server_error"
| "deliver fs (Inr (JSONResponse j)) = \<lparr>status = 200, payload = JSONBody j\<rparr>"
| "deliver fs (Inr (FileResponse (PathArg p) media_type fname)) =
     (case os_stat fs p of
        Some (File b) \<Rightarrow> \<lparr>status = 200, payload = FileBody media_type fname b\<rparr>
      | _ \<Rightarrow> server_error)"
| "deliver fs (Inr (FileResponse (BytesIOArg buffer) media_type fname)) = server_error"

text \<open>
  The state of the plot directory after start-up (\<^verbatim>\<open>os.makedirs(PLOT_DIR, exist_ok=True)\<close>):
  the working directory and \<^verbatim>\<open>plots\<close> in it are directories. The store is flat when
  nothing in \<^verbatim>\<open>plots\<close> is a directory, and an artifact is a regular file in it.
\<close>

definition plot_dir :: "filesystem \<Rightarrow> string list" where
  "plot_dir fs = cwd fs @ [PLOT_DIR]"

definition plot_dir_ok :: "filesystem \<Rightarrow> bool" where
  "plot_dir_ok fs \<longleftrightarrow> lookup fs (cwd fs) = Some Dir \<and> lookup fs (plot_dir fs) = Some Dir"

definition flat_store :: "filesystem \<Rightarrow> bool" where
  "flat_store fs \<longleftrightarrow> list_all (\<lambda>n. lookup fs (plot_dir fs @ [n]) \<noteq> Some Dir) (children fs (plot_dir fs))"

definition artifact :: "filesystem \<Rightarrow> string \<Rightarrow> bytes option" where
  "artifact fs n =
     (case lookup fs (plot_dir fs @ [n]) of Some (File b) \<Rightarrow> Some b | _ \<Rightarrow> None)"

text \<open>A plain file name: not empty, no separator, neither \<open>.\<close> nor \<open>..\<close>.\<close>

definition plain_name :: "string \<Rightarrow> bool" where
  "plain_name n \<longleftrightarrow> n \<noteq> [] \<and> CHR ''/'' \<notin> set n \<and> n \<noteq> ''.'' \<and> n \<noteq> ''..''"

text \<open>Every component of every path in the file system is a plain file name.\<close>

definition wf_fs :: "filesystem \<Rightarrow> bool" where
  "wf_fs fs \<longleftrightarrow> list_all (\<lambda>(p, n). list_all plain_name p) (nodes fs)"

subsection \<open>Example inputs\<close>

text \<open>The table of the specification's example: two numeric columns of three rows.\<close>

definition table_AB :: table where
  "table_AB =
     \<lparr>columns =
        [\<lparr>name = ''A'', numeric = True, cells = [IntV 1, IntV 2, IntV 3]\<rparr>,
         \<lparr>name = ''B'', numeric = True, cells = [IntV 4, IntV 5, IntV 6]\<rparr>],
      nrows = 3\<rparr>"

text \<open>A table with missing and infinite cells in a numeric and in a text column.\<close>

definition table_dirty :: table where
  "table_dirty =
     \<lparr>columns =
        [\<lparr>name = ''x'', numeric = True, cells = [NaN, PosInf, FloatV 2, NegInf]\<rparr>,
         \<lparr>name = ''y'', numeric = False, cells = [StrV ''a'', NaN, NaT, PosInf]\<rparr>],
      nrows = 4\<rparr>"

text \<open>The same table normalized by a library that stores \<open>0\<close> in every column.\<close>

definition table_clean :: table where
  "table_clean =
     \<lparr>columns =
        [\<lparr>name = ''x'', numeric = True, cells = [FloatV 0, FloatV 0, FloatV 2, FloatV 0]\<rparr>,
         \<lparr>name = ''y'', numeric = False, cells = [StrV ''a'', IntV 0, IntV 0, IntV 0]\<rparr>],
      nrows = 4\<rparr>"



text \<open>A table with one numeric column, and one with none.\<close>

definition table_one :: table where
  "table_one =
     \<lparr>columns =
        [\<lparr>name = ''label'', numeric = False, cells = [StrV ''a'', StrV ''b'']\<rparr>,
         \<lparr>name = ''v'', numeric = True, cells = [FloatV 1, FloatV 2]\<rparr>],
      nrows = 2\<rparr>"

definition table_text :: table where
  "table_text =
     \<lparr>columns = [\<lparr>name = ''label'', numeric = False, cells = [StrV ''a'', StrV ''b'']\<rparr>],
      nrows = 2\<rparr>"

text \<open>
  A file system: the application directory \<^verbatim>\<open>/app\<close> is the working directory and
  holds the module and the plot directory with one artifact left by an earlier request.
\<close>

definition fs_app :: filesystem where
  "fs_app =
     \<lparr>cwd = [''app''],
      nodes =
        [([''app''], Dir),
         ([''app'', ''main.py''], File [105, 109, 112]),
         ([''app'', ''plots''], Dir),
         ([''app'', ''plots'', ''A_line.png''], File [137, 80, 78, 71])]\<rparr>"

text \<open>The same file system after a later request has plotted the column \<open>v\<close>.\<close>

definition fs_later :: filesystem where
  "fs_later =
     \<lparr>cwd = [''app''],
      nodes =
        [([''app''], Dir),
         ([''app'', ''main.py''], File [105, 109, 112]),
         ([''app'', ''plots''], Dir),
         ([''app'', ''plots'', ''A_line.png''], File [137, 80, 78, 71]),
         ([''app'', ''plots'', ''v_line.png''], File [137, 80, 78, 71]),
         ([''app'', ''plots'', ''v_bar.png''], File [137, 80, 78, 71]),
         ([''app'', ''plots'', ''v_hist.png''], File [137, 80, 78, 71])]\<rparr>"

text \<open>
  Collaborators that succeed: a parser that reads every upload as a fixed table, a
  plotting backend that draws every figure as the same bytes, a table library that
  stores \<open>0\<close> in every column.
\<close>

definition env_of :: "table \<Rightarrow> env" where
  "env_of df =
     \<lparr>read_excel = (\<lambda>b. Inr df),
      plot = (\<lambda>t c. Inr [137, 80, 78, 71]),
      str_exc = (\<lambda>e. (case e of HTTPException code detail \<Rightarrow> detail | _ \<Rightarrow> ''error'')),
      can_hold_element = (\<lambda>col v. True)\<rparr>"


text \<open>A plotting backend whose scatter plots raise and whose other plots succeed.\<close>

definition env_no_scatter :: "table \<Rightarrow> env" where
  "env_no_scatter df =
     (env_of df)\<lparr>plot :=
        (\<lambda>t c. (case c of
                   ScatterPlot x y title \<Rightarrow> Inl (LibraryError ''scatter'')
                 | SeriesPlot col kind title bins \<Rightarrow> Inr [137, 80, 78, 71]))\<rparr>"

definition upload_xlsx :: upload where
  "upload_xlsx = \<lparr>filename = ''data.xlsx'', content = [80, 75]\<rparr>"

definition upload_csv :: upload where
  "upload_csv = \<lparr>filename = ''data.csv'', content = [49, 44, 50]\<rparr>"

section \<open>Properties\<close>

subsection \<open>The normalizer and the record serializer\<close>

lemma fill_no_missing:
  "\<not> list_ex isna (cells col) \<Longrightarrow>
     col\<lparr>cells := map (\<lambda>c. if isna c then store_as col v else c) (cells col)\<rparr> = col"
proof -
  assume "\<not> list_ex isna (cells col)"
  then have "map (\<lambda>c. if isna c then store_as col v else c) (cells col) = cells col"
    by (simp add: list_ex_iff map_idI)
  then show ?thesis by simp
qed

lemma fillna_column_Inr:
  "fillna_column env v col = Inr col' \<longleftrightarrow>
     (list_ex isna (cells col) \<longrightarrow> numeric col \<or> can_hold_element env col v) \<and>
     col' = col\<lparr>cells := map (\<lambda>c. if isna c then store_as col v else c) (cells col)\<rparr>"
  by (auto simp: fillna_column_def fill_no_missing)

lemma fillna_column_Inl:
  "fillna_column env v col = Inl e \<longleftrightarrow>
     e = TypeError \<and> list_ex isna (cells col) \<and> \<not> numeric col \<and> \<not> can_hold_element env col v"
  by (auto simp: fillna_column_def)

lemma fillna_columns_Inr:
  "fillna_columns env v cols = Inr cols' \<longleftrightarrow>
     (\<forall>col \<in> set cols. list_ex isna (cells col) \<longrightarrow> numeric col \<or> can_hold_element env col v) \<and>
     cols' = map (\<lambda>col. col\<lparr>cells := map (\<lambda>c. if isna c then store_as col v else c) (cells col)\<rparr>)
               cols"
proof (induction cols arbitrary: cols')
  case Nil
  then show ?case by auto
next
  case (Cons col cols)
  show ?case
  proof (cases "fillna_column env v col")
    case (Inl e)
    then show ?thesis
      using fillna_column_Inl [of env v col e] by auto
  next
    case (Inr col1)
    note c = this
    show ?thesis
    proof (cases "fillna_columns env v cols")
      case (Inl e)
      have "\<not> (\<forall>col \<in> set cols. list_ex isna (cells col) \<longrightarrow>
                 numeric col \<or> can_hold_element env col v)"
      proof
        assume "\<forall>col \<in> set cols. list_ex isna (cells col) \<longrightarrow>
                 numeric col \<or> can_hold_element env col v"
        then have "\<exists>cols'. fillna_columns env v cols = Inr cols'"
          using Cons.IH by blast
        then show False using Inl by simp
      qed
      then show ?thesis
        using c Inl by auto
    next
      case (Inr cols1)
      then show ?thesis
        using c Cons.IH [of cols1] fillna_column_Inr [of env v col col1] by auto
    qed
  qed
qed


text \<open>The normalizer returns when every column with a missing cell takes the number.\<close>

lemma normalizer_Inr:
  "normalizer env df = Inr df' \<longleftrightarrow>
     (\<forall>col \<in> set (columns df).
        list_ex isna (cells col) \<longrightarrow> numeric col \<or> can_hold_element env col (IntV 0)) \<and>
     df' = df\<lparr>columns :=
              map (\<lambda>col. col\<lparr>cells := map (\<lambda>c. if isna c \<or> c = PosInf \<or> c = NegInf
                                               then store_as col (IntV 0) else c) (cells col)\<rparr>)
                  (columns df)\<rparr>"
proof -
  have r: "replace_values [PosInf, NegInf] (IntV 0)
        (df\<lparr>columns := map (\<lambda>col. col\<lparr>cells := map (\<lambda>c. if isna c then store_as col (IntV 0) else c)
                                                   (cells col)\<rparr>) (columns df)\<rparr>) =
      df\<lparr>columns :=
              map (\<lambda>col. col\<lparr>cells := map (\<lambda>c. if isna c \<or> c = PosInf \<or> c = NegInf
                                               then store_as col (IntV 0) else c) (cells col)\<rparr>)
                  (columns df)\<rparr>"
    by (auto simp: replace_values_def isna_def)
  show ?thesis
  proof (cases "fillna_columns env (IntV 0) (columns df)")
    case (Inl e)
    then show ?thesis
      using fillna_columns_Inr [of env "IntV 0" "columns df"]
      by (auto simp: normalizer_def fillna_def)
  next
    case (Inr cols)
    then show ?thesis
      using fillna_columns_Inr [of env "IntV 0" "columns df" cols] r
      by (auto simp: normalizer_def fillna_def)
  qed
qed


lemma normalizer_clean_again:
  assumes "\<forall>col \<in> set (columns df). \<forall>c \<in> set (cells col). \<not> isna c \<and> c \<noteq> PosInf \<and> c \<noteq> NegInf"
  shows "normalizer env df = Inr df"
proof -
  have "map (\<lambda>col. col\<lparr>cells := map (\<lambda>c. if isna c \<or> c = PosInf \<or> c = NegInf
                                               then store_as col (IntV 0) else c) (cells col)\<rparr>)
                  (columns df) = columns df"
  proof (rule map_idI)
    fix col assume "col \<in> set (columns df)"
    then have "map (\<lambda>c. if isna c \<or> c = PosInf \<or> c = NegInf
                          then store_as col (IntV 0) else c) (cells col) = cells col"
      using assms by (intro map_idI) auto
    then show "col\<lparr>cells := map (\<lambda>c. if isna c \<or> c = PosInf \<or> c = NegInf
                          then store_as col (IntV 0) else c) (cells col)\<rparr> = col"
      by simp
  qed
  moreover have "\<forall>col \<in> set (columns df).
        list_ex isna (cells col) \<longrightarrow> numeric col \<or> can_hold_element env col (IntV 0)"
    using assms by (auto simp: list_ex_iff)
  ultimately show ?thesis
    by (simp add: normalizer_Inr)
qed

lemma normalizer_nrows: "normalizer env df = Inr df' \<Longrightarrow> nrows df' = nrows df"
  by (auto simp: normalizer_Inr)

lemma select_numeric_normalizer:
  "normalizer env df = Inr df' \<Longrightarrow> select_numeric df' = select_numeric df"
  by (auto simp: normalizer_Inr select_numeric_def filter_map comp_def)

lemma wf_table_normalizer: "wf_table df \<Longrightarrow> normalizer env df = Inr df' \<Longrightarrow> wf_table df'"
  by (auto simp: normalizer_Inr wf_table_def comp_def list_all_iff)

lemma map_of_row:
  "distinct (map name cols) \<Longrightarrow> col \<in> set cols \<Longrightarrow>
     map_of (map (\<lambda>c. (name c, f c)) cols) (name col) = Some (f col)"
  by (induction cols) (auto simp: image_iff)

lemma normalizer_table_dirty: "normalizer (env_of t) table_dirty = Inr table_clean"
  by (simp add: normalizer_Inr) (simp add: table_dirty_def table_clean_def env_of_def isna_def)




text \<open>
  C7. The record serializer gives one record per row, in row order; the keys of every
  record are the column names in column order, and the record of row \<open>i\<close> maps each
  column name to the cell of that column in row \<open>i\<close>. It is a total function.
\<close>

theorem record_serializer:
  assumes "wf_table df"
  shows "length (to_dict_records df) = nrows df \<and>
         (\<forall>r \<in> set (to_dict_records df). map fst r = map name (columns df)) \<and>
         (\<forall>i < nrows df. \<forall>col \<in> set (columns df).
            map_of (to_dict_records df ! i) (name col) = Some (cells col ! i))"
proof -
  have d: "distinct (map name (columns df))"
    using assms by (simp add: wf_table_def)
  have "length (to_dict_records df) = nrows df"
    by (simp add: to_dict_records_def)
  moreover have "\<forall>r \<in> set (to_dict_records df). map fst r = map name (columns df)"
    by (auto simp: to_dict_records_def comp_def)
  moreover have "\<forall>i < nrows df. \<forall>col \<in> set (columns df).
            map_of (to_dict_records df ! i) (name col) = Some (cells col ! i)"
    using d by (simp add: to_dict_records_def map_of_row)
  ultimately show ?thesis by simp
qed

theorem record_serializer_witness:
  "normalizer (env_of table_dirty) table_dirty = Inr table_clean \<and>
   wf_table table_clean \<and>
   to_dict_records table_clean =
     [[(''x'', FloatV 0), (''y'', StrV ''a'')],
      [(''x'', FloatV 0), (''y'', IntV 0)],
      [(''x'', FloatV 2), (''y'', IntV 0)],
      [(''x'', FloatV 0), (''y'', IntV 0)]] \<and>
   length (to_dict_records table_clean) = 4"
proof -
  have w: "wf_table table_clean"
    by (simp add: wf_table_def table_clean_def)
  have r: "to_dict_records table_clean =
     [[(''x'', FloatV 0), (''y'', StrV ''a'')],
      [(''x'', FloatV 0), (''y'', IntV 0)],
      [(''x'', FloatV 2), (''y'', IntV 0)],
      [(''x'', FloatV 0), (''y'', IntV 0)]]"
    by (simp add: to_dict_records_def table_clean_def upt_rec)
  show ?thesis
    using record_serializer [OF w] w r normalizer_table_dirty [of table_dirty]
    by (simp add: table_clean_def)
qed

subsection \<open>Splitting and joining paths\<close>

lemma split_on_nonempty: "split_on c s \<noteq> []"
  by (induction s) (auto split: list.splits)

lemma split_on_no_sep: "c \<notin> set s \<Longrightarrow> split_on c s = [s]"
  by (induction s) auto

lemma split_on_sep: "c \<notin> set a \<Longrightarrow> split_on c (a @ c # b) = a # split_on c b"
  by (induction a) auto

lemma join_plot_dir:
  "plot_name = [] \<or> hd plot_name \<noteq> CHR ''/'' \<Longrightarrow> os_path_join PLOT_DIR plot_name = ''plots/'' @ plot_name"
  by (auto simp: os_path_join_def PLOT_DIR_def)

lemma join_absolute:
  "plot_name \<noteq> [] \<Longrightarrow> hd plot_name = CHR ''/'' \<Longrightarrow> os_path_join PLOT_DIR plot_name = plot_name"
  by (simp add: os_path_join_def)

lemma plain_name_hd: "plain_name n \<Longrightarrow> hd n \<noteq> CHR ''/''"
  by (cases n) (auto simp: plain_name_def)

lemma split_plot_path:
  "plain_name n \<Longrightarrow> split_on CHR ''/'' (os_path_join PLOT_DIR n) = [''plots'', n]"
proof -
  assume n: "plain_name n"
  then have "os_path_join PLOT_DIR n = ''plots'' @ CHR ''/'' # n"
    by (simp add: join_plot_dir plain_name_hd)
  moreover have "split_on CHR ''/'' (''plots'' @ CHR ''/'' # n) = ''plots'' # split_on CHR ''/'' n"
    by (rule split_on_sep) simp
  moreover have "split_on CHR ''/'' n = [n]"
    using n by (simp add: split_on_no_sep plain_name_def)
  ultimately show ?thesis by simp
qed

lemma start_dir_plot_path: "plain_name n \<Longrightarrow> start_dir fs (os_path_join PLOT_DIR n) = cwd fs"
  by (simp add: start_dir_def join_plot_dir plain_name_hd)

lemma plot_path_nonempty: "os_path_join PLOT_DIR n \<noteq> []"
  by (auto simp: os_path_join_def PLOT_DIR_def)

lemma resolve_plot_path:
  "plot_dir_ok fs \<Longrightarrow> plain_name n \<Longrightarrow>
     resolve fs (os_path_join PLOT_DIR n) = Some (plot_dir fs @ [n])"
proof -
  assume ok: "plot_dir_ok fs" and n: "plain_name n"
  have "resolve fs (os_path_join PLOT_DIR n) = walk fs (cwd fs) [''plots'', n]"
    using n by (simp add: resolve_def plot_path_nonempty start_dir_plot_path split_plot_path
        del: walk.simps)
  also have "\<dots> = Some (plot_dir fs @ [n])"
    using ok n by (simp add: plot_dir_ok_def plot_dir_def PLOT_DIR_def plain_name_def)
  finally show ?thesis .
qed

lemma os_stat_plot_path:
  "plot_dir_ok fs \<Longrightarrow> plain_name n \<Longrightarrow>
     os_stat fs (os_path_join PLOT_DIR n) = lookup fs (plot_dir fs @ [n])"
  by (simp add: os_stat_def resolve_plot_path)

lemma resolve_plot_dir:
  "plot_dir_ok fs \<Longrightarrow> resolve fs PLOT_DIR = Some (plot_dir fs)"
  by (simp add: resolve_def start_dir_def plot_dir_ok_def plot_dir_def PLOT_DIR_def)

subsection \<open>Writing into the plot directory\<close>

lemma lookup_store_file:
  "q \<noteq> [] \<Longrightarrow> lookup (store_file fs q b) p = (if p = q then Some (File b) else lookup fs p)"
  by (simp add: lookup_def store_file_def update_conv')

lemma cwd_store_file: "cwd (store_file fs q b) = cwd fs"
  by (simp add: store_file_def)

lemma plot_dir_store_file: "plot_dir (store_file fs q b) = plot_dir fs"
  by (simp add: plot_dir_def cwd_store_file)

lemma set_children: "set (children fs d) = {n. map_of (nodes fs) (d @ [n]) \<noteq> None}"
proof -
  have "\<And>p. (p \<noteq> [] \<and> butlast p = d) = (\<exists>n. p = d @ [n])"
    by (metis butlast_snoc snoc_eq_iff_butlast)
  then show ?thesis
    by (force simp: children_def map_of_eq_None_iff image_iff)
qed

lemma flat_store_iff: "flat_store fs \<longleftrightarrow> (\<forall>n. lookup fs (plot_dir fs @ [n]) \<noteq> Some Dir)"
  by (auto simp: flat_store_def list_all_iff set_children lookup_def)

lemma plot_dir_ok_store_file:
  "plot_dir_ok fs \<Longrightarrow> plot_dir_ok (store_file fs (plot_dir fs @ [n]) b)"
  by (auto simp: plot_dir_ok_def lookup_store_file cwd_store_file plot_dir_store_file plot_dir_def)

lemma flat_store_store_file:
  "flat_store fs \<Longrightarrow> flat_store (store_file fs (plot_dir fs @ [n]) b)"
  by (simp add: flat_store_iff lookup_store_file plot_dir_store_file)

lemma write_plot_file:
  assumes "plot_dir_ok fs" "flat_store fs" "plain_name n"
  shows "write_file fs (os_path_join PLOT_DIR n) b = Inr (store_file fs (plot_dir fs @ [n]) b)"
proof -
  have nd: "lookup fs (plot_dir fs @ [n]) \<noteq> Some Dir"
    using assms(2) by (simp add: flat_store_iff)
  have w: "walk fs (cwd fs) [''plots''] = Some (plot_dir fs)"
    using assms(1) by (simp add: plot_dir_ok_def plot_dir_def PLOT_DIR_def)
  have d: "lookup fs (plot_dir fs) = Some Dir"
    using assms(1) by (simp add: plot_dir_ok_def)
  have c: "n \<noteq> [] \<and> n \<noteq> ''.'' \<and> n \<noteq> ''..''"
    using assms(3) by (simp add: plain_name_def)
  show ?thesis
    using nd c
    by (simp add: write_file_def plot_path_nonempty start_dir_plot_path [OF assms(3)]
        split_plot_path [OF assms(3)] w d del: walk.simps split: option.splits node.splits)
qed

lemma artifact_store_file:
  "artifact (store_file fs (plot_dir fs @ [n]) b) m = (if m = n then Some b else artifact fs m)"
  by (simp add: artifact_def lookup_store_file plot_dir_store_file)

subsection \<open>The plot sweep\<close>

lemma plain_plot_file_name:
  "CHR ''/'' \<notin> set column \<Longrightarrow> plain_name (plot_file_name column plot_type)"
proof -
  assume c: "CHR ''/'' \<notin> set column"
  have u: "CHR ''_'' \<in> set (plot_file_name column plot_type)"
    by (simp add: plot_file_name_def)
  have "plot_file_name column plot_type \<noteq> ''.''" "plot_file_name column plot_type \<noteq> ''..''"
    using u by auto
  moreover have "CHR ''/'' \<notin> set (plot_file_name column plot_type)"
    using c by (cases plot_type) (simp_all add: plot_file_name_def)
  moreover have "plot_file_name column plot_type \<noteq> []"
    by (simp add: plot_file_name_def)
  ultimately show ?thesis
    by (simp add: plain_name_def)
qed


lemma plot_step_skip:
  "render env df numeric_columns column plot_type = None \<Longrightarrow>
     plot_step env df numeric_columns column plot_type plot_paths fs = (Inr plot_paths, fs)"
  by (simp add: plot_step_def)

lemma plot_step_saved:
  assumes "plot_dir_ok fs" "flat_store fs" "CHR ''/'' \<notin> set column"
    and "render env df numeric_columns column plot_type = Some (Inr png)"
  shows "plot_step env df numeric_columns column plot_type plot_paths fs =
           (Inr (plot_paths @ [os_path_join PLOT_DIR (plot_file_name column plot_type)]),
            store_file fs (plot_dir fs @ [plot_file_name column plot_type]) png)"
  using assms(4) write_plot_file [OF assms(1,2) plain_plot_file_name [OF assms(3)]]
  by (simp add: plot_step_def)

text \<open>The plot types of one column that reach \<^verbatim>\<open>plt.savefig\<close>.\<close>

lemma plot_types_loop_saved:
  assumes "CHR ''/'' \<notin> set column"
    and "\<forall>pt \<in> set pts. render env df ncols column pt = None \<or>
           (\<exists>png. render env df ncols column pt = Some (Inr png))"
    and "plot_dir_ok fs" "flat_store fs"
  shows "\<exists>fs'. plot_types_loop env df ncols column pts paths fs =
           (Inr (paths @ map (\<lambda>pt. os_path_join PLOT_DIR (plot_file_name column pt))
                           (filter (\<lambda>pt. render env df ncols column pt \<noteq> None) pts)), fs') \<and>
         plot_dir_ok fs' \<and> flat_store fs' \<and>
         (\<forall>n. if n \<in> plot_file_name column ` {pt \<in> set pts. render env df ncols column pt \<noteq> None}
              then artifact fs' n \<noteq> None else artifact fs' n = artifact fs n)"
  using assms(2-)
proof (induction pts arbitrary: paths fs)
  case Nil
  then show ?case by simp
next
  case (Cons pt pts)
  show ?case
  proof (cases "render env df ncols column pt")
    case None
    have "\<exists>fs'. plot_types_loop env df ncols column pts paths fs =
           (Inr (paths @ map (\<lambda>pt. os_path_join PLOT_DIR (plot_file_name column pt))
                           (filter (\<lambda>pt. render env df ncols column pt \<noteq> None) pts)), fs') \<and>
         plot_dir_ok fs' \<and> flat_store fs' \<and>
         (\<forall>n. if n \<in> plot_file_name column ` {pt \<in> set pts. render env df ncols column pt \<noteq> None}
              then artifact fs' n \<noteq> None else artifact fs' n = artifact fs n)"
      using Cons.prems by (intro Cons.IH) simp_all
    moreover have eq: "{p \<in> set (pt # pts). render env df ncols column p \<noteq> None} =
        {p \<in> set pts. render env df ncols column p \<noteq> None}"
      using None by auto
    ultimately show ?thesis
      unfolding eq using None by (simp add: plot_step_skip)
  next
    case (Some r)
    then obtain png where r: "render env df ncols column pt = Some (Inr png)"
      using Cons.prems(1) by auto
    let ?fs = "store_file fs (plot_dir fs @ [plot_file_name column pt]) png"
    let ?paths = "paths @ [os_path_join PLOT_DIR (plot_file_name column pt)]"
    have step: "plot_step env df ncols column pt paths fs = (Inr ?paths, ?fs)"
      using Cons.prems(2,3) assms(1) r by (rule plot_step_saved)
    have ok: "plot_dir_ok ?fs" "flat_store ?fs"
      using Cons.prems(2,3) by (simp_all add: plot_dir_ok_store_file flat_store_store_file)
    have "\<exists>fs'. plot_types_loop env df ncols column pts ?paths ?fs =
           (Inr (?paths @ map (\<lambda>pt. os_path_join PLOT_DIR (plot_file_name column pt))
                           (filter (\<lambda>pt. render env df ncols column pt \<noteq> None) pts)), fs') \<and>
         plot_dir_ok fs' \<and> flat_store fs' \<and>
         (\<forall>n. if n \<in> plot_file_name column ` {pt \<in> set pts. render env df ncols column pt \<noteq> None}
              then artifact fs' n \<noteq> None else artifact fs' n = artifact ?fs n)"
      using Cons.prems(1) ok by (intro Cons.IH) simp_all
    then obtain fs' where
      l: "plot_types_loop env df ncols column pts ?paths ?fs =
           (Inr (?paths @ map (\<lambda>pt. os_path_join PLOT_DIR (plot_file_name column pt))
                           (filter (\<lambda>pt. render env df ncols column pt \<noteq> None) pts)), fs')"
      and ok': "plot_dir_ok fs'" "flat_store fs'"
      and a: "\<forall>n. if n \<in> plot_file_name column ` {pt \<in> set pts. render env df ncols column pt \<noteq> None}
              then artifact fs' n \<noteq> None else artifact fs' n = artifact ?fs n"
      by blast
    have "\<forall>n. if n \<in> plot_file_name column ` {p \<in> set (pt # pts). render env df ncols column p \<noteq> None}
              then artifact fs' n \<noteq> None else artifact fs' n = artifact fs n"
    proof
      fix n
      show "if n \<in> plot_file_name column ` {p \<in> set (pt # pts). render env df ncols column p \<noteq> None}
              then artifact fs' n \<noteq> None else artifact fs' n = artifact fs n"
        using spec [OF a, of n] r by (auto simp: artifact_store_file split: if_splits)
    qed
    then show ?thesis
      using step l ok' r by simp
  qed
qed

lemma plot_types_loop_paths:
  "fst (plot_types_loop env df ncols column pts paths fs) = Inr ps \<Longrightarrow>
     ps = paths @ map (\<lambda>pt. os_path_join PLOT_DIR (plot_file_name column pt))
                      (filter (\<lambda>pt. render env df ncols column pt \<noteq> None) pts)"
proof (induction pts arbitrary: paths fs)
  case Nil
  then show ?case by simp
next
  case (Cons pt pts)
  obtain r fs1 where s: "plot_step env df ncols column pt paths fs = (r, fs1)"
    by (cases "plot_step env df ncols column pt paths fs") blast
  show ?case
  proof (cases r)
    case (Inl e)
    then show ?thesis using Cons.prems s by simp
  next
    case (Inr paths1)
    have p1: "paths1 = (if render env df ncols column pt = None then paths
                       else paths @ [os_path_join PLOT_DIR (plot_file_name column pt)])"
      using s Inr by (auto simp: plot_step_def Let_def split: option.splits sum.splits)
    have "fst (plot_types_loop env df ncols column pts paths1 fs1) = Inr ps"
      using Cons.prems s Inr by simp
    then have "ps = paths1 @ map (\<lambda>pt. os_path_join PLOT_DIR (plot_file_name column pt))
                      (filter (\<lambda>pt. render env df ncols column pt \<noteq> None) pts)"
      by (rule Cons.IH)
    then show ?thesis using p1 by simp
  qed
qed

text \<open>The artifacts of a list of columns, in the order of the sweep.\<close>

lemma columns_loop_paths:
  "fst (columns_loop env df ncols pts cols paths fs) = Inr ps \<Longrightarrow>
     ps = paths @ concat (map (\<lambda>c. map (\<lambda>pt. os_path_join PLOT_DIR (plot_file_name c pt))
                      (filter (\<lambda>pt. render env df ncols c pt \<noteq> None) pts)) cols)"
proof (induction cols arbitrary: paths fs)
  case Nil
  then show ?case by simp
next
  case (Cons c cols)
  obtain r fs1 where s: "plot_types_loop env df ncols c pts paths fs = (r, fs1)"
    by (cases "plot_types_loop env df ncols c pts paths fs") blast
  show ?case
  proof (cases r)
    case (Inl e)
    then show ?thesis using Cons.prems s by simp
  next
    case (Inr paths1)
    have p1: "paths1 = paths @ map (\<lambda>pt. os_path_join PLOT_DIR (plot_file_name c pt))
                      (filter (\<lambda>pt. render env df ncols c pt \<noteq> None) pts)"
      using s Inr plot_types_loop_paths [of env df ncols c pts paths fs paths1] by simp
    have "fst (columns_loop env df ncols pts cols paths1 fs1) = Inr ps"
      using Cons.prems s Inr by simp
    then have "ps = paths1 @ concat (map (\<lambda>c. map (\<lambda>pt. os_path_join PLOT_DIR (plot_file_name c pt))
                      (filter (\<lambda>pt. render env df ncols c pt \<noteq> None) pts)) cols)"
      by (rule Cons.IH)
    then show ?thesis using p1 by simp
  qed
qed

lemma columns_loop_saved:
  assumes "\<forall>c \<in> set cols. CHR ''/'' \<notin> set c"
    and "\<forall>c \<in> set cols. \<forall>pt \<in> set pts. render env df ncols c pt = None \<or>
           (\<exists>png. render env df ncols c pt = Some (Inr png))"
    and "plot_dir_ok fs" "flat_store fs"
  shows "\<exists>ps fs'. columns_loop env df ncols pts cols paths fs = (Inr ps, fs') \<and>
         plot_dir_ok fs' \<and> flat_store fs' \<and>
         (\<forall>n. if n \<in> (\<Union>c \<in> set cols. plot_file_name c ` {pt \<in> set pts. render env df ncols c pt \<noteq> None})
              then artifact fs' n \<noteq> None else artifact fs' n = artifact fs n)"
  using assms
proof (induction cols arbitrary: paths fs)
  case Nil
  then show ?case by simp
next
  case (Cons c cols)
  have "\<exists>fs'. plot_types_loop env df ncols c pts paths fs =
           (Inr (paths @ map (\<lambda>pt. os_path_join PLOT_DIR (plot_file_name c pt))
                           (filter (\<lambda>pt. render env df ncols c pt \<noteq> None) pts)), fs') \<and>
         plot_dir_ok fs' \<and> flat_store fs' \<and>
         (\<forall>n. if n \<in> plot_file_name c ` {pt \<in> set pts. render env df ncols c pt \<noteq> None}
              then artifact fs' n \<noteq> None else artifact fs' n = artifact fs n)"
    using Cons.prems by (intro plot_types_loop_saved) simp_all
  then obtain fs1 paths1 where
    l: "plot_types_loop env df ncols c pts paths fs = (Inr paths1, fs1)"
    and ok1: "plot_dir_ok fs1" "flat_store fs1"
    and a1: "\<forall>n. if n \<in> plot_file_name c ` {pt \<in> set pts. render env df ncols c pt \<noteq> None}
              then artifact fs1 n \<noteq> None else artifact fs1 n = artifact fs n"
    by blast
  have "\<exists>ps fs'. columns_loop env df ncols pts cols paths1 fs1 = (Inr ps, fs') \<and>
         plot_dir_ok fs' \<and> flat_store fs' \<and>
         (\<forall>n. if n \<in> (\<Union>c \<in> set cols. plot_file_name c ` {pt \<in> set pts. render env df ncols c pt \<noteq> None})
              then artifact fs' n \<noteq> None else artifact fs' n = artifact fs1 n)"
    using Cons.prems ok1 by (intro Cons.IH) simp_all
  then obtain ps fs' where
    l': "columns_loop env df ncols pts cols paths1 fs1 = (Inr ps, fs')"
    and ok': "plot_dir_ok fs'" "flat_store fs'"
    and a': "\<forall>n. if n \<in> (\<Union>c \<in> set cols. plot_file_name c ` {pt \<in> set pts. render env df ncols c pt \<noteq> None})
              then artifact fs' n \<noteq> None else artifact fs' n = artifact fs1 n"
    by blast
  have "\<forall>n. if n \<in> (\<Union>c \<in> set (c # cols). plot_file_name c ` {pt \<in> set pts. render env df ncols c pt \<noteq> None})
              then artifact fs' n \<noteq> None else artifact fs' n = artifact fs n"
  proof
    fix n
    show "if n \<in> (\<Union>c \<in> set (c # cols). plot_file_name c ` {pt \<in> set pts. render env df ncols c pt \<noteq> None})
              then artifact fs' n \<noteq> None else artifact fs' n = artifact fs n"
      using spec [OF a1, of n] spec [OF a', of n] by (auto split: if_splits)
  qed
  then show ?case
    using l l' ok' by simp
qed

lemma plot_sweep_paths:
  "fst (plot_sweep env df fs) = Inr ps \<Longrightarrow>
     ps = concat (map (\<lambda>c. map (\<lambda>pt. os_path_join PLOT_DIR (plot_file_name c pt))
                    (filter (\<lambda>pt. render env df (select_numeric df) c pt \<noteq> None)
                       [Line, Bar, Scatter, Hist])) (select_numeric df))"
  using columns_loop_paths [of env df "select_numeric df" "[Line, Bar, Scatter, Hist]"
      "select_numeric df" "[]" fs ps]
  by (simp add: plot_sweep_def Let_def split: if_splits)

lemma plot_sweep_saved:
  assumes "select_numeric df \<noteq> []"
    and "\<forall>c \<in> set (select_numeric df). CHR ''/'' \<notin> set c"
    and "\<forall>c \<in> set (select_numeric df). \<forall>pt \<in> set [Line, Bar, Scatter, Hist].
           render env df (select_numeric df) c pt = None \<or>
           (\<exists>png. render env df (select_numeric df) c pt = Some (Inr png))"
    and "plot_dir_ok fs" "flat_store fs"
  shows "\<exists>ps. fst (plot_sweep env df fs) = Inr ps" (is ?A)
    and "plot_dir_ok (snd (plot_sweep env df fs))" (is ?B)
    and "flat_store (snd (plot_sweep env df fs))" (is ?C)
    and "\<forall>n. if n \<in> (\<Union>c \<in> set (select_numeric df). plot_file_name c `
                      {pt \<in> set [Line, Bar, Scatter, Hist].
                         render env df (select_numeric df) c pt \<noteq> None})
              then artifact (snd (plot_sweep env df fs)) n \<noteq> None
              else artifact (snd (plot_sweep env df fs)) n = artifact fs n" (is ?D)
proof -
  have s: "plot_sweep env df fs =
      columns_loop env df (select_numeric df) [Line, Bar, Scatter, Hist] (select_numeric df) [] fs"
    using assms(1) by (simp add: plot_sweep_def Let_def)
  obtain ps fs' where
    l: "columns_loop env df (select_numeric df) [Line, Bar, Scatter, Hist] (select_numeric df) [] fs
          = (Inr ps, fs')"
    and ok: "plot_dir_ok fs'" "flat_store fs'"
    and a: "\<forall>n. if n \<in> (\<Union>c \<in> set (select_numeric df). plot_file_name c `
                      {pt \<in> set [Line, Bar, Scatter, Hist].
                         render env df (select_numeric df) c pt \<noteq> None})
              then artifact fs' n \<noteq> None else artifact fs' n = artifact fs n"
    using columns_loop_saved [OF assms(2,3,4,5), of "[]"] by blast
  show ?A using s l by simp
  show ?B using s l ok by simp
  show ?C using s l ok by simp
  show ?D using s l a by simp
qed

lemma generate_all_plots_sweep:
  assumes "endswith (filename file) [''.xls'', ''.xlsx'']"
    and "read_excel env (content file) = Inr df0"
    and "normalizer env df0 = Inr df"
  shows "snd (generate_all_plots env file fs) = snd (plot_sweep env df fs)"
    and "fst (plot_sweep env df fs) = Inr ps \<Longrightarrow>
         fst (generate_all_plots env file fs) =
           Inr (JSONResponse (JObj
                  [(''message'', JStr ''Plots generated successfully''),
                   (''plots'', JArr (map (\<lambda>path. JStr (plot_url path)) ps)),
                   (''download_all'', JStr ''http://127.0.0.1:8000/download-all-plots/'')]))"
    and "fst (plot_sweep env df fs) = Inl e \<Longrightarrow>
         fst (generate_all_plots env file fs) =
           Inl (HTTPException 400 (''An error occurred while creating plots: '' @ str_exc env e))"
  using assms
  by (auto simp: generate_all_plots_def generate_all_plots_try_def Let_def
      split: prod.splits sum.splits)

lemma produced_names:
  "(\<Union>c \<in> set cols. plot_file_name c ` {pt \<in> set pts. P c pt}) =
     set (concat (map (\<lambda>c. map (plot_file_name c) (filter (P c) pts)) cols))"
  by auto

lemma select_numeric_table_AB: "select_numeric table_AB = [''A'', ''B'']"
  by (simp add: select_numeric_def table_AB_def)

lemma normalizer_table_AB: "normalizer env table_AB = Inr table_AB"
  by (rule normalizer_clean_again) (simp add: table_AB_def isna_def)

text \<open>
  C1. For the table with the numeric columns \<open>A = [1,2,3]\<close> and \<open>B = [4,5,6]\<close>, uploaded
  under an Excel file name, with a plotting backend that draws every figure and the plot
  directory in place and holding regular files only: the normalizer returns the table as
  it is (it has no missing or infinite cell), the sweep returns the eight paths
  \<open>plots/{column}_{kind}.png\<close> in the order \<open>A\<close> then \<open>B\<close>, each with line, bar,
  scatter, hist; the response lists the download URLs of exactly these eight file names in
  this order; afterwards each of the eight is an artifact of the store, and every other
  artifact is as it was.
\<close>

theorem sweep_table_AB:
  assumes "endswith (filename file) [''.xls'', ''.xlsx'']"
    and "read_excel env (content file) = Inr table_AB"
    and "\<forall>call. \<exists>png. plot env table_AB call = Inr png"
    and "plot_dir_ok fs" and "flat_store fs"
  shows "normalizer env table_AB = Inr table_AB \<and>
         fst (plot_sweep env table_AB fs) =
           Inr [''plots/A_line.png'', ''plots/A_bar.png'', ''plots/A_scatter.png'',
                ''plots/A_hist.png'', ''plots/B_line.png'', ''plots/B_bar.png'',
                ''plots/B_scatter.png'', ''plots/B_hist.png''] \<and>
         fst (generate_all_plots env file fs) =
           Inr (JSONResponse (JObj
             [(''message'', JStr ''Plots generated successfully''),
              (''plots'', JArr
                 [JStr ''http://127.0.0.1:8000/download-plot/?plot_name=A_line.png'',
                  JStr ''http://127.0.0.1:8000/download-plot/?plot_name=A_bar.png'',
                  JStr ''http://127.0.0.1:8000/download-plot/?plot_name=A_scatter.png'',
                  JStr ''http://127.0.0.1:8000/download-plot/?plot_name=A_hist.png'',
                  JStr ''http://127.0.0.1:8000/download-plot/?plot_name=B_line.png'',
                  JStr ''http://127.0.0.1:8000/download-plot/?plot_name=B_bar.png'',
                  JStr ''http://127.0.0.1:8000/download-plot/?plot_name=B_scatter.png'',
                  JStr ''http://127.0.0.1:8000/download-plot/?plot_name=B_hist.png'']),
              (''download_all'', JStr ''http://127.0.0.1:8000/download-all-plots/'')])) \<and>
         (\<forall>n. if n \<in> set [''A_line.png'', ''A_bar.png'', ''A_scatter.png'', ''A_hist.png'',
                              ''B_line.png'', ''B_bar.png'', ''B_scatter.png'', ''B_hist.png'']
              then artifact (snd (generate_all_plots env file fs)) n \<noteq> None
              else artifact (snd (generate_all_plots env file fs)) n = artifact fs n)"
proof -
  let ?df = "table_AB"
  let ?paths = "[''plots/A_line.png'', ''plots/A_bar.png'', ''plots/A_scatter.png'',
                ''plots/A_hist.png'', ''plots/B_line.png'', ''plots/B_bar.png'',
                ''plots/B_scatter.png'', ''plots/B_hist.png'']"
  have r: "\<And>c pt. render env ?df [''A'', ''B''] c pt \<noteq> None"
    by (simp add: render_def split: plot_type.splits)
  have r': "\<And>c pt. \<exists>png. render env ?df [''A'', ''B''] c pt = Some (Inr png)"
    using assms(3) by (simp add: render_def split: plot_type.splits)
  have ne: "select_numeric ?df \<noteq> []"
    by (simp add: select_numeric_table_AB)
  have sl: "\<forall>c \<in> set (select_numeric ?df). CHR ''/'' \<notin> set c"
    by (simp add: select_numeric_table_AB)
  have rs: "\<forall>c \<in> set (select_numeric ?df). \<forall>pt \<in> set [Line, Bar, Scatter, Hist].
           render env ?df (select_numeric ?df) c pt = None \<or>
           (\<exists>png. render env ?df (select_numeric ?df) c pt = Some (Inr png))"
    using r' by (simp add: select_numeric_table_AB)
  obtain ps where ps: "fst (plot_sweep env ?df fs) = Inr ps"
    using plot_sweep_saved(1) [OF ne sl rs assms(4,5)] by blast
  have "ps = ?paths"
    using plot_sweep_paths [OF ps]
    by (simp add: select_numeric_table_AB r os_path_join_def PLOT_DIR_def plot_file_name_def)
  then have p: "fst (plot_sweep env ?df fs) = Inr ?paths"
    using ps by simp
  have g: "fst (generate_all_plots env file fs) =
           Inr (JSONResponse (JObj
                  [(''message'', JStr ''Plots generated successfully''),
                   (''plots'', JArr (map (\<lambda>path. JStr (plot_url path)) ?paths)),
                   (''download_all'', JStr ''http://127.0.0.1:8000/download-all-plots/'')]))"
    using assms(1,2) normalizer_table_AB p by (rule generate_all_plots_sweep(2))
  have u: "map (\<lambda>path. JStr (plot_url path)) ?paths =
                 [JStr ''http://127.0.0.1:8000/download-plot/?plot_name=A_line.png'',
                  JStr ''http://127.0.0.1:8000/download-plot/?plot_name=A_bar.png'',
                  JStr ''http://127.0.0.1:8000/download-plot/?plot_name=A_scatter.png'',
                  JStr ''http://127.0.0.1:8000/download-plot/?plot_name=A_hist.png'',
                  JStr ''http://127.0.0.1:8000/download-plot/?plot_name=B_line.png'',
                  JStr ''http://127.0.0.1:8000/download-plot/?plot_name=B_bar.png'',
                  JStr ''http://127.0.0.1:8000/download-plot/?plot_name=B_scatter.png'',
                  JStr ''http://127.0.0.1:8000/download-plot/?plot_name=B_hist.png'']"
    by (simp add: plot_url_def os_path_basename_def)
  have names: "(\<Union>c \<in> set (select_numeric ?df). plot_file_name c `
                      {pt \<in> set [Line, Bar, Scatter, Hist].
                         render env ?df (select_numeric ?df) c pt \<noteq> None}) =
        set [''A_line.png'', ''A_bar.png'', ''A_scatter.png'', ''A_hist.png'',
             ''B_line.png'', ''B_bar.png'', ''B_scatter.png'', ''B_hist.png'']"
    unfolding produced_names
    by (simp add: select_numeric_table_AB r plot_file_name_def)
  have a: "\<forall>n. if n \<in> set [''A_line.png'', ''A_bar.png'', ''A_scatter.png'', ''A_hist.png'',
                              ''B_line.png'', ''B_bar.png'', ''B_scatter.png'', ''B_hist.png'']
              then artifact (snd (plot_sweep env ?df fs)) n \<noteq> None
              else artifact (snd (plot_sweep env ?df fs)) n = artifact fs n"
    using plot_sweep_saved(4) [OF ne sl rs assms(4,5)] unfolding names .
  have s: "snd (generate_all_plots env file fs) = snd (plot_sweep env ?df fs)"
    using assms(1,2) normalizer_table_AB by (rule generate_all_plots_sweep(1))
  show ?thesis
    unfolding s using p g a normalizer_table_AB [of env] unfolding u by blast
qed

lemma fs_app_ok: "plot_dir_ok fs_app" "flat_store fs_app" "wf_fs fs_app"
  by (simp_all add: plot_dir_ok_def flat_store_def wf_fs_def plot_dir_def PLOT_DIR_def
      lookup_def children_def fs_app_def plain_name_def)

lemma upload_xlsx_ok: "endswith (filename upload_xlsx) [''.xls'', ''.xlsx'']"
  by (simp add: endswith_def upload_xlsx_def)

theorem sweep_table_AB_witness:
  "endswith (filename upload_xlsx) [''.xls'', ''.xlsx''] \<and>
   read_excel (env_of table_AB) (content upload_xlsx) = Inr table_AB \<and>
   plot_dir_ok fs_app \<and> flat_store fs_app \<and>
   normalizer (env_of table_AB) table_AB = Inr table_AB \<and>
   fst (plot_sweep (env_of table_AB) table_AB fs_app) =
           Inr [''plots/A_line.png'', ''plots/A_bar.png'', ''plots/A_scatter.png'',
                ''plots/A_hist.png'', ''plots/B_line.png'', ''plots/B_bar.png'',
                ''plots/B_scatter.png'', ''plots/B_hist.png''] \<and>
   artifact (snd (generate_all_plots (env_of table_AB) upload_xlsx fs_app)) ''B_hist.png'' \<noteq> None"
proof -
  have h2: "read_excel (env_of table_AB) (content upload_xlsx) = Inr table_AB"
    by (simp add: env_of_def)
  have h3: "\<forall>call. \<exists>png. plot (env_of table_AB) table_AB call = Inr png"
    by (simp add: env_of_def)
  note t = sweep_table_AB [OF upload_xlsx_ok h2 h3 fs_app_ok(1,2)]
  from t have "if ''B_hist.png'' \<in> set [''A_line.png'', ''A_bar.png'', ''A_scatter.png'',
                   ''A_hist.png'', ''B_line.png'', ''B_bar.png'', ''B_scatter.png'', ''B_hist.png'']
      then artifact (snd (generate_all_plots (env_of table_AB) upload_xlsx fs_app)) ''B_hist.png'' \<noteq> None
      else artifact (snd (generate_all_plots (env_of table_AB) upload_xlsx fs_app)) ''B_hist.png'' =
           artifact fs_app ''B_hist.png''"
    by blast
  then have "artifact (snd (generate_all_plots (env_of table_AB) upload_xlsx fs_app)) ''B_hist.png'' \<noteq> None"
    by simp
  then show ?thesis
    using t upload_xlsx_ok h2 fs_app_ok(1,2) by blast
qed

text \<open>
  C3. For a table none of whose columns is numeric, the plot sweep, run on the table or
  on the table the normalizer returns for it, fails with the exception of line 67 and
  leaves the file system as it was; when the upload parses to such a table, the reply of
  \<^verbatim>\<open>POST /generate-plots/\<close> has status 400 and the file system after the request is the
  one before it (also when the normalizer raises).
\<close>

theorem sweep_no_numeric_columns:
  assumes "\<forall>col \<in> set (columns df). \<not> numeric col"
  shows "plot_sweep env df fs =
           (Inl (HTTPException 400 ''No numeric columns found to plot.''), fs) \<and>
         (\<forall>df'. normalizer env df = Inr df' \<longrightarrow>
            plot_sweep env df' fs =
              (Inl (HTTPException 400 ''No numeric columns found to plot.''), fs)) \<and>
         (read_excel env (content file) = Inr df \<longrightarrow>
            status (deliver fs (fst (generate_all_plots env file fs))) = 400 \<and>
            snd (generate_all_plots env file fs) = fs)"
proof -
  have "filter numeric (columns df) = []"
    using assms by (simp add: filter_empty_conv)
  then have n: "select_numeric df = []"
    by (simp add: select_numeric_def)
  have p: "plot_sweep env df fs =
           (Inl (HTTPException 400 ''No numeric columns found to plot.''), fs)"
    using n by (simp add: plot_sweep_def)
  have q: "plot_sweep env df' fs =
           (Inl (HTTPException 400 ''No numeric columns found to plot.''), fs)"
    if "normalizer env df = Inr df'" for df'
    using select_numeric_normalizer [OF that] n by (simp add: plot_sweep_def)
  have "status (deliver fs (fst (generate_all_plots env file fs))) = 400 \<and>
          snd (generate_all_plots env file fs) = fs"
    if r: "read_excel env (content file) = Inr df"
  proof (cases "normalizer env df")
    case (Inl e)
    then show ?thesis
      using r by (simp add: generate_all_plots_def generate_all_plots_try_def)
  next
    case (Inr df')
    then show ?thesis
      using r q [OF Inr] by (simp add: generate_all_plots_def generate_all_plots_try_def)
  qed
  then show ?thesis
    using p q by blast
qed

theorem sweep_no_numeric_columns_witness:
  "\<not> numeric \<lparr>name = ''label'', numeric = False, cells = [StrV ''a'', StrV ''b'']\<rparr> \<and>
   read_excel (env_of table_text) (content upload_xlsx) = Inr table_text \<and>
   normalizer (env_of table_text) table_text = Inr table_text \<and>
   plot_sweep (env_of table_text) table_text fs_app =
     (Inl (HTTPException 400 ''No numeric columns found to plot.''), fs_app) \<and>
   deliver fs_app (fst (generate_all_plots (env_of table_text) upload_xlsx fs_app)) =
     \<lparr>status = 400, payload = JSONBody (JObj [(''detail'',
        JStr ''An error occurred while creating plots: No numeric columns found to plot.'')])\<rparr> \<and>
   snd (generate_all_plots (env_of table_text) upload_xlsx fs_app) = fs_app"
proof -
  have h: "\<forall>col \<in> set (columns table_text). \<not> numeric col"
    by (simp add: table_text_def)
  have r: "read_excel (env_of table_text) (content upload_xlsx) = Inr table_text"
    by (simp add: env_of_def)
  have n: "normalizer (env_of table_text) table_text = Inr table_text"
    by (rule normalizer_clean_again) (simp add: table_text_def isna_def)
  note t = sweep_no_numeric_columns [OF h, of "env_of table_text" fs_app upload_xlsx]
  have d: "deliver fs_app (fst (generate_all_plots (env_of table_text) upload_xlsx fs_app)) =
     \<lparr>status = 400, payload = JSONBody (JObj [(''detail'',
        JStr ''An error occurred while creating plots: No numeric columns found to plot.'')])\<rparr>"
    using t r n upload_xlsx_ok
    by (simp add: generate_all_plots_def generate_all_plots_try_def) (simp add: env_of_def)
  show ?thesis
    using t r n d by simp
qed

text \<open>
  C8. An upload whose file name ends neither in \<open>.xls\<close> nor in \<open>.xlsx\<close> is answered
  with status 400 by \<^verbatim>\<open>POST /upload/\<close> and by \<^verbatim>\<open>POST /generate-plots/\<close>; the file
  system is left as it was, and the outcome is the same whatever the parser is: the
  parser is not reached.
\<close>

theorem invalid_extension_rejected:
  assumes "\<not> endswith (filename file) [''.xls'', ''.xlsx'']"
  shows "upload_file env file =
           Inl (HTTPException 400 (''An error occurred while processing the file: '' @
                  str_exc env (HTTPException 400
                    ''Invalid file format. Only Excel files are allowed.''))) \<and>
         generate_all_plots env file fs =
           (Inl (HTTPException 400 (''An error occurred while creating plots: '' @
                  str_exc env (HTTPException 400
                    ''Invalid file format. Only Excel files are allowed.''))), fs) \<and>
         status (deliver fs (upload_file env file)) = 400 \<and>
         status (deliver fs (fst (generate_all_plots env file fs))) = 400 \<and>
         (\<forall>parser. upload_file (env\<lparr>read_excel := parser\<rparr>) file = upload_file env file \<and>
                   generate_all_plots (env\<lparr>read_excel := parser\<rparr>) file fs =
                     generate_all_plots env file fs)"
  using assms
  by (simp add: upload_file_def upload_file_try_def generate_all_plots_def
      generate_all_plots_try_def)

theorem invalid_extension_rejected_witness:
  "\<not> endswith (filename upload_csv) [''.xls'', ''.xlsx''] \<and>
   deliver fs_app (upload_file (env_of table_AB) upload_csv) =
     \<lparr>status = 400, payload = JSONBody (JObj [(''detail'',
        JStr ''An error occurred while processing the file: Invalid file format. Only Excel files are allowed.'')])\<rparr> \<and>
   generate_all_plots (env_of table_AB) upload_csv fs_app =
     (Inl (HTTPException 400
        ''An error occurred while creating plots: Invalid file format. Only Excel files are allowed.''),
      fs_app)"
proof -
  have h: "\<not> endswith (filename upload_csv) [''.xls'', ''.xlsx'']"
    by (simp add: endswith_def upload_csv_def)
  show ?thesis
    using invalid_extension_rejected [OF h, of "env_of table_AB" fs_app] h
    by (simp add: env_of_def)
qed




subsection \<open>Downloads\<close>

lemma artifact_Some: "artifact fs n = Some b \<longleftrightarrow> lookup fs (plot_dir fs @ [n]) = Some (File b)"
  by (simp add: artifact_def split: option.splits node.splits)

lemma children_plain:
  assumes "wf_fs fs" "n \<in> set (children fs d)"
  shows "plain_name n"
proof -
  obtain x where "(d @ [n], x) \<in> set (nodes fs)"
    using assms(2) by (auto simp: set_children dest: map_of_SomeD)
  then have "list_all plain_name (d @ [n])"
    using assms(1) by (auto simp: wf_fs_def list_all_iff)
  then show ?thesis by simp
qed

lemma children_artifact:
  assumes "flat_store fs" "n \<in> set (children fs (plot_dir fs))"
  shows "\<exists>b. artifact fs n = Some b"
proof -
  have "lookup fs (plot_dir fs @ [n]) \<noteq> None"
    using assms(2) by (simp add: set_children lookup_def)
  moreover have "lookup fs (plot_dir fs @ [n]) \<noteq> Some Dir"
    using assms(1) by (simp add: flat_store_iff)
  ultimately show ?thesis
    by (cases "lookup fs (plot_dir fs @ [n])") (auto simp: artifact_Some intro: node.exhaust)
qed

lemma zf_write_artifact:
  "plot_dir_ok fs \<Longrightarrow> plain_name n \<Longrightarrow> artifact fs n = Some b \<Longrightarrow>
     zf_write fs (os_path_join PLOT_DIR n) n = Inr (n, b)"
  by (simp add: zf_write_def os_stat_plot_path artifact_Some)

lemma zip_loop_artifacts:
  assumes "plot_dir_ok fs"
    and "\<forall>n \<in> set names. plain_name n \<and> (\<exists>b. artifact fs n = Some b)"
  shows "zip_loop fs names zf = Inr (zf @ map (\<lambda>n. (n, the (artifact fs n))) names)"
  using assms(2)
proof (induction names arbitrary: zf)
  case Nil
  then show ?case by simp
next
  case (Cons n names)
  then obtain b where b: "artifact fs n = Some b" and p: "plain_name n"
    by auto
  have "zf_write fs (os_path_join PLOT_DIR n) n = Inr (n, b)"
    using assms(1) p b by (rule zf_write_artifact)
  moreover have "zip_loop fs names (zf @ [(n, b)]) =
      Inr ((zf @ [(n, b)]) @ map (\<lambda>n. (n, the (artifact fs n))) names)"
    using Cons.prems by (intro Cons.IH) simp
  ultimately show ?case
    using b by simp
qed

text \<open>
  C6. With the plot directory in place and holding regular files only, \<open>archive_all\<close>
  builds an archive whose member names are exactly the names present in the directory,
  whichever request wrote them, each once, and each member holds the content of the file
  of its name.
\<close>

theorem archive_all_members:
  assumes "plot_dir_ok fs" and "flat_store fs" and "wf_fs fs"
  shows "\<exists>zf. archive_all fs = Inr zf \<and>
           set (map fst zf) = {n. lookup fs (plot_dir fs @ [n]) \<noteq> None} \<and>
           distinct (map fst zf) \<and>
           (\<forall>(n, b) \<in> set zf. artifact fs n = Some b)"
proof -
  let ?names = "children fs (plot_dir fs)"
  let ?zf = "map (\<lambda>n. (n, the (artifact fs n))) ?names"
  have l: "os_listdir fs PLOT_DIR = Inr ?names"
    using assms(1) by (simp add: os_listdir_def resolve_plot_dir plot_dir_ok_def)
  have "\<forall>n \<in> set ?names. plain_name n \<and> (\<exists>b. artifact fs n = Some b)"
    using assms(2,3) by (auto intro: children_plain dest: children_artifact)
  then have z: "zip_loop fs ?names [] = Inr ?zf" and a: "\<forall>(n, b) \<in> set ?zf. artifact fs n = Some b"
    using zip_loop_artifacts [OF assms(1), of ?names "[]"] by auto
  have "archive_all fs = Inr ?zf"
    using l z by (simp add: archive_all_def)
  moreover have "set (map fst ?zf) = {n. lookup fs (plot_dir fs @ [n]) \<noteq> None}"
    by (simp add: comp_def set_children lookup_def)
  moreover have "distinct (map fst ?zf)"
    by (simp add: comp_def children_def)
  ultimately show ?thesis
    using a by blast
qed

lemma fs_later_ok: "plot_dir_ok fs_later" "flat_store fs_later" "wf_fs fs_later"
  by (simp_all add: plot_dir_ok_def flat_store_def wf_fs_def plot_dir_def PLOT_DIR_def
      lookup_def children_def fs_later_def plain_name_def)

lemma fs_later_reached:
  "snd (generate_all_plots (env_no_scatter table_one) upload_xlsx fs_app) = fs_later"
  by code_simp

lemma archive_all_fs_later:
  "archive_all fs_later =
     Inr [(''A_line.png'', [137, 80, 78, 71]), (''v_line.png'', [137, 80, 78, 71]),
          (''v_bar.png'', [137, 80, 78, 71]), (''v_hist.png'', [137, 80, 78, 71])]"
  by code_simp

theorem archive_all_members_witness:
  "plot_dir_ok fs_later \<and> flat_store fs_later \<and> wf_fs fs_later \<and>
   snd (generate_all_plots (env_no_scatter table_one) upload_xlsx fs_app) = fs_later \<and>
   archive_all fs_later =
     Inr [(''A_line.png'', [137, 80, 78, 71]), (''v_line.png'', [137, 80, 78, 71]),
          (''v_bar.png'', [137, 80, 78, 71]), (''v_hist.png'', [137, 80, 78, 71])] \<and>
   {n. lookup fs_later (plot_dir fs_later @ [n]) \<noteq> None} =
     {''A_line.png'', ''v_line.png'', ''v_bar.png'', ''v_hist.png''}"
proof -
  have "{n. lookup fs_later (plot_dir fs_later @ [n]) \<noteq> None} =
     {''A_line.png'', ''v_line.png'', ''v_bar.png'', ''v_hist.png''}"
    using archive_all_members [OF fs_later_ok] by (auto simp: archive_all_fs_later)
  then show ?thesis
    using fs_later_ok fs_later_reached archive_all_fs_later by simp
qed

text \<open>
  C5. \<^verbatim>\<open>GET /download-all-plots/\<close> never answers 200. When the archive cannot be built
  the handler raises its \<^verbatim>\<open>HTTPException(500)\<close>, as the claim says. When the archive
  is built, the handler returns a \<^verbatim>\<open>FileResponse\<close> whose path argument is the
  in-memory buffer; sending it fails, and the client receives the server's 500 instead of
  the archive.
\<close>

theorem download_all_plots_never_ok:
  "status (deliver fs (download_all_plots env fs)) = 500 \<and>
   (\<forall>buffer. archive_all fs = Inr buffer \<longrightarrow>
      download_all_plots env fs =
        Inr (FileResponse (BytesIOArg buffer) ''application/zip'' ''all_plots.zip'') \<and>
      deliver fs (download_all_plots env fs) =
        \<lparr>status = 500, payload = TextBody ''Internal Server Error''\<rparr>) \<and>
   (\<forall>e. archive_all fs = Inl e \<longrightarrow>
      deliver fs (download_all_plots env fs) =
        \<lparr>status = 500, payload = JSONBody (JObj [(''detail'',
           JStr (''An error occurred while creating the zip file: '' @ str_exc env e))])\<rparr>)"
  by (cases "archive_all fs") (simp_all add: download_all_plots_def server_error_def)

theorem download_all_plots_never_ok_witness:
  "archive_all fs_later =
     Inr [(''A_line.png'', [137, 80, 78, 71]), (''v_line.png'', [137, 80, 78, 71]),
          (''v_bar.png'', [137, 80, 78, 71]), (''v_hist.png'', [137, 80, 78, 71])] \<and>
   deliver fs_later (download_all_plots (env_of table_one) fs_later) =
     \<lparr>status = 500, payload = TextBody ''Internal Server Error''\<rparr>"
  using download_all_plots_never_ok [of fs_later "env_of table_one"] archive_all_fs_later
  by (simp add: server_error_def)

text \<open>
  C9, as stated, fails: \<^verbatim>\<open>../main.py\<close> names no artifact of the store, and the reply is
  200 with the content of the module, not 404.
\<close>

theorem download_plot_not_404_counterexample:
  "''../main.py'' \<notin> set (children fs_app (plot_dir fs_app)) \<and>
   artifact fs_app ''../main.py'' = None \<and>
   deliver fs_app (download_plot fs_app ''../main.py'') =
     \<lparr>status = 200, payload = FileBody ''image/png'' ''../main.py'' [105, 109, 112]\<rparr>"
  by code_simp

text \<open>
  C9, amended. The handler raises 404 "Plot not found" exactly when the path
  \<^verbatim>\<open>os.path.join(PLOT_DIR, plot_name)\<close> does not exist. For a plain file name (not empty,
  no separator, not \<open>.\<close> or \<open>..\<close>) and the plot directory in place and flat: the reply
  is 200 with the \<open>image/png\<close> content of the artifact of that name when there is one,
  and 404 with the detail "Plot not found" when there is none.
\<close>

theorem download_plot_plain_name:
  "(download_plot fs plot_name = Inl (HTTPException 404 ''Plot not found'') \<longleftrightarrow>
      \<not> os_path_exists fs (os_path_join PLOT_DIR plot_name)) \<and>
   (plot_dir_ok fs \<and> flat_store fs \<and> plain_name plot_name \<longrightarrow>
      (\<forall>b. artifact fs plot_name = Some b \<longrightarrow>
         deliver fs (download_plot fs plot_name) =
           \<lparr>status = 200, payload = FileBody ''image/png'' plot_name b\<rparr>) \<and>
      (artifact fs plot_name = None \<longrightarrow>
         deliver fs (download_plot fs plot_name) =
           \<lparr>status = 404, payload = JSONBody (JObj [(''detail'', JStr ''Plot not found'')])\<rparr>))"
proof -
  have A: "download_plot fs plot_name = Inl (HTTPException 404 ''Plot not found'') \<longleftrightarrow>
      \<not> os_path_exists fs (os_path_join PLOT_DIR plot_name)"
    by (simp add: download_plot_def Let_def)
  have B: "deliver fs (download_plot fs plot_name) =
           \<lparr>status = 200, payload = FileBody ''image/png'' plot_name b\<rparr>"
    if "plot_dir_ok fs" "plain_name plot_name" "artifact fs plot_name = Some b" for b
    using that
    by (simp add: download_plot_def Let_def os_path_exists_def os_stat_plot_path artifact_Some)
  have C: "deliver fs (download_plot fs plot_name) =
           \<lparr>status = 404, payload = JSONBody (JObj [(''detail'', JStr ''Plot not found'')])\<rparr>"
    if ok: "plot_dir_ok fs" and fl: "flat_store fs" and p: "plain_name plot_name"
      and n: "artifact fs plot_name = None"
  proof -
    have "lookup fs (plot_dir fs @ [plot_name]) \<noteq> Some Dir"
      using fl by (simp add: flat_store_iff)
    then have "lookup fs (plot_dir fs @ [plot_name]) = None"
      using n by (auto simp: artifact_def split: option.splits node.splits)
    then show ?thesis
      using ok p by (simp add: download_plot_def Let_def os_path_exists_def os_stat_plot_path)
  qed
  show ?thesis
    using A B C by blast
qed

theorem download_plot_plain_name_witness:
  "plot_dir_ok fs_app \<and> flat_store fs_app \<and>
   plain_name ''A_line.png'' \<and> artifact fs_app ''A_line.png'' = Some [137, 80, 78, 71] \<and>
   deliver fs_app (download_plot fs_app ''A_line.png'') =
     \<lparr>status = 200, payload = FileBody ''image/png'' ''A_line.png'' [137, 80, 78, 71]\<rparr> \<and>
   plain_name ''B_line.png'' \<and> artifact fs_app ''B_line.png'' = None \<and>
   deliver fs_app (download_plot fs_app ''B_line.png'') =
     \<lparr>status = 404, payload = JSONBody (JObj [(''detail'', JStr ''Plot not found'')])\<rparr>"
proof -
  have a: "plain_name ''A_line.png''" "artifact fs_app ''A_line.png'' = Some [137, 80, 78, 71]"
    and b: "plain_name ''B_line.png''" "artifact fs_app ''B_line.png'' = None"
    by (simp_all add: plain_name_def artifact_def lookup_def plot_dir_def PLOT_DIR_def fs_app_def)
  show ?thesis
    using download_plot_plain_name [of fs_app "''A_line.png''"]
      download_plot_plain_name [of fs_app "''B_line.png''"] fs_app_ok(1,2) a b
    by simp
qed

text \<open>
  C10. \<^verbatim>\<open>GET /download-plot/\<close> joins the plot directory and \<open>plot_name\<close> as they are:
  whenever the joined path exists, the handler returns the file response for that path,
  and whatever regular file the path resolves to, inside the plot directory or not, is
  sent with status 200. An absolute \<open>plot_name\<close> is the joined path itself.
\<close>

theorem download_plot_unsanitized:
  "(os_path_exists fs (os_path_join PLOT_DIR plot_name) \<longrightarrow>
      download_plot fs plot_name =
        Inr (FileResponse (PathArg (os_path_join PLOT_DIR plot_name)) ''image/png'' plot_name)) \<and>
   (plot_name \<noteq> [] \<and> hd plot_name = CHR ''/'' \<longrightarrow> os_path_join PLOT_DIR plot_name = plot_name) \<and>
   (\<forall>q b. resolve fs (os_path_join PLOT_DIR plot_name) = Some q \<and> lookup fs q = Some (File b) \<longrightarrow>
      deliver fs (download_plot fs plot_name) =
        \<lparr>status = 200, payload = FileBody ''image/png'' plot_name b\<rparr>)"
  by (auto simp: download_plot_def Let_def os_path_exists_def os_stat_def os_path_join_def)

theorem download_plot_unsanitized_witness:
  "plot_dir fs_app = [''app'', ''plots''] \<and>
   resolve fs_app (os_path_join PLOT_DIR ''../main.py'') = Some [''app'', ''main.py''] \<and>
   lookup fs_app [''app'', ''main.py''] = Some (File [105, 109, 112]) \<and>
   deliver fs_app (download_plot fs_app ''../main.py'') =
     \<lparr>status = 200, payload = FileBody ''image/png'' ''../main.py'' [105, 109, 112]\<rparr> \<and>
   os_path_join PLOT_DIR ''/app/main.py'' = ''/app/main.py'' \<and>
   resolve fs_app (os_path_join PLOT_DIR ''/app/main.py'') = Some [''app'', ''main.py''] \<and>
   deliver fs_app (download_plot fs_app ''/app/main.py'') =
     \<lparr>status = 200, payload = FileBody ''image/png'' ''/app/main.py'' [105, 109, 112]\<rparr>"
proof -
  have p: "plot_dir fs_app = [''app'', ''plots'']"
    by (simp add: plot_dir_def PLOT_DIR_def fs_app_def)
  have r1: "resolve fs_app (os_path_join PLOT_DIR ''../main.py'') = Some [''app'', ''main.py'']"
    and r2: "resolve fs_app (os_path_join PLOT_DIR ''/app/main.py'') = Some [''app'', ''main.py'']"
    by code_simp+
  have l: "lookup fs_app [''app'', ''main.py''] = Some (File [105, 109, 112])"
    by (simp add: lookup_def fs_app_def)
  show ?thesis
    using download_plot_unsanitized [of fs_app "''../main.py''"]
      download_plot_unsanitized [of fs_app "''/app/main.py''"] p r1 r2 l
    by simp
qed

end
